theory Spec2Isabelle
  imports Main "HOL-Library.AList" "HOL-Library.Char_ord" "HOL-Library.List_Lexorder"
begin

section \<open>Errors, command results and panics\<close>

text \<open>
  The backend reports failures as Go \<open>error\<close> values. Three kinds occur: errors made from
  a message (\<open>errors.New\<close>, \<open>fmt.Errorf\<close>), the path errors of package \<open>os\<close> (only their
  errno is kept: the operation and path fields of a path error decide no branch of the
  code), and \<open>io.EOF\<close>.
\<close>

datatype errno = ENOENT | ENOTDIR | EISDIR | ENOTEMPTY | EINVAL | EBUSY | EEXIST

datatype error = ErrorString string | PathError errno | EOF

text \<open>
  Modelled from the spec: the result types of package \<open>jkv\<close> (\<open>StringCmd\<close>, \<open>StatusCmd\<close>,
  \<open>IntCmd\<close>, \<open>StringSliceCmd\<close>, \<open>BoolCmd\<close> and their constructors) are not among the
  sources. The spec calls a backend result a value/error pair, so a command result is the
  pair it was constructed from, read back by \<open>Val\<close> and \<open>Err\<close>.
\<close>

record 'a Cmd =
  Val :: 'a
  Err :: "error option"

definition NewStringCmd :: "string \<Rightarrow> error option \<Rightarrow> string Cmd" where
  "NewStringCmd v e = \<lparr>Val = v, Err = e\<rparr>"

definition NewStatusCmd :: "string \<Rightarrow> error option \<Rightarrow> string Cmd" where
  "NewStatusCmd v e = \<lparr>Val = v, Err = e\<rparr>"

definition NewIntCmd :: "int \<Rightarrow> error option \<Rightarrow> int Cmd" where
  "NewIntCmd v e = \<lparr>Val = v, Err = e\<rparr>"

definition NewStringSliceCmd :: "string list \<Rightarrow> error option \<Rightarrow> string list Cmd" where
  "NewStringSliceCmd v e = \<lparr>Val = v, Err = e\<rparr>"

definition NewBoolCmd :: "bool \<Rightarrow> error option \<Rightarrow> bool Cmd" where
  "NewBoolCmd v e = \<lparr>Val = v, Err = e\<rparr>"

lemmas NewCmd_defs =
  NewStringCmd_def NewStatusCmd_def NewIntCmd_def NewStringSliceCmd_def NewBoolCmd_def

text \<open>A Go function either returns or panics (an index out of range, an explicit \<open>panic\<close>).\<close>

datatype 'a outcome = Panic string | Return 'a

section \<open>The file system under package os\<close>

text \<open>
  The backend keeps all its data in files, so the state it works on is a file tree. A node
  is a regular file with its bytes or a directory with its named entries. Permissions,
  links and I/O failures of the device are not modelled: an operation fails only for the
  shape of the tree (a missing entry, a file where a directory is needed, and so on).
\<close>

datatype node = File string | Dir "(string \<times> node) list"

text \<open>
  A path name is cut at every slash; empty components vanish, as repeated and trailing
  slashes do in path resolution. The current directory is the root of the tree. The
  components \<open>.\<close> and \<open>..\<close> are not interpreted (they are kept as entry names), and a
  trailing slash after the name of a regular file, which path resolution refuses, is
  dropped like any other. The theorems that depend on what a name resolves to are
  therefore stated for plain names and plain root locations.
\<close>

primrec split_acc :: "(char \<Rightarrow> bool) \<Rightarrow> string \<Rightarrow> string \<Rightarrow> string list" where
  "split_acc sep acc [] = (if acc = [] then [] else [acc])"
| "split_acc sep acc (c # cs) =
     (if sep c then (if acc = [] then split_acc sep [] cs else acc # split_acc sep [] cs)
      else split_acc sep (acc @ [c]) cs)"

definition path_of :: "string \<Rightarrow> string list" where
  "path_of name = split_acc (\<lambda>c. c = CHR ''/'') [] name"

definition plain_name :: "string \<Rightarrow> bool" where
  "plain_name k = (k \<noteq> [] \<and> CHR ''/'' \<notin> set k \<and> k \<noteq> ''.'' \<and> k \<noteq> ''..'')"


fun resolve :: "string list \<Rightarrow> node \<Rightarrow> errno + node" where
  "resolve [] n = Inr n"
| "resolve (c # cs) (File d) = Inl ENOTDIR"
| "resolve (c # cs) (Dir es) =
     (case map_of es c of None \<Rightarrow> Inl ENOENT | Some m \<Rightarrow> resolve cs m)"

text \<open>Creating or truncating a regular file: the parent directory must exist.\<close>

fun write_at :: "string list \<Rightarrow> string \<Rightarrow> node \<Rightarrow> errno + node" where
  "write_at [] d (File old) = Inr (File d)"
| "write_at [] d (Dir es) = Inl EISDIR"
| "write_at (c # cs) d (File old) = Inl ENOTDIR"
| "write_at (c # cs) d (Dir es) =
     (case map_of es c of
        None \<Rightarrow> (if cs = [] then Inr (Dir (AList.update c (File d) es)) else Inl ENOENT)
      | Some m \<Rightarrow>
          (case write_at cs d m of
             Inl e \<Rightarrow> Inl e
           | Inr m' \<Rightarrow> Inr (Dir (AList.update c m' es))))"

text \<open>Removing one entry: a regular file, or a directory that is empty.\<close>

fun remove_at :: "string list \<Rightarrow> node \<Rightarrow> errno + node" where
  "remove_at [] n = Inl EBUSY"
| "remove_at (c # cs) (File d) = Inl ENOTDIR"
| "remove_at [c] (Dir es) =
     (case map_of es c of
        None \<Rightarrow> Inl ENOENT
      | Some (File d) \<Rightarrow> Inr (Dir (AList.delete c es))
      | Some (Dir sub) \<Rightarrow>
          (if sub = [] then Inr (Dir (AList.delete c es)) else Inl ENOTEMPTY))"
| "remove_at (c # c' # cs) (Dir es) =
     (case map_of es c of
        None \<Rightarrow> Inl ENOENT
      | Some m \<Rightarrow>
          (case remove_at (c' # cs) m of
             Inl e \<Rightarrow> Inl e
           | Inr m' \<Rightarrow> Inr (Dir (AList.update c m' es))))"

text \<open>
  Removing a whole subtree. A path that does not exist is no error; a path that runs
  through a regular file is one. The root itself is not removed.
\<close>

fun removeAll_at :: "string list \<Rightarrow> node \<Rightarrow> errno option \<times> node" where
  "removeAll_at [] n = (Some EBUSY, n)"
| "removeAll_at (c # cs) (File d) = (Some ENOTDIR, File d)"
| "removeAll_at [c] (Dir es) = (None, Dir (AList.delete c es))"
| "removeAll_at (c # c' # cs) (Dir es) =
     (case map_of es c of
        None \<Rightarrow> (None, Dir es)
      | Some m \<Rightarrow>
          (case removeAll_at (c' # cs) m of
             (e, m') \<Rightarrow> (e, Dir (AList.update c m' es))))"

text \<open>
  Creating a directory and every missing parent. \<open>os.MkdirAll\<close> asks for each prefix
  of the name in turn, written with its trailing slash, and creates what is missing; a
  regular file in the way makes the creation of that prefix fail because the name exists.
\<close>

fun mkdirAll_at :: "string list \<Rightarrow> node \<Rightarrow> errno + node" where
  "mkdirAll_at [] (Dir es) = Inr (Dir es)"
| "mkdirAll_at [] (File d) = Inl EEXIST"
| "mkdirAll_at (c # cs) (File d) = Inl EEXIST"
| "mkdirAll_at (c # cs) (Dir es) =
     (case mkdirAll_at cs (case map_of es c of None \<Rightarrow> Dir [] | Some m \<Rightarrow> m) of
        Inl e \<Rightarrow> Inl e
      | Inr m' \<Rightarrow> Inr (Dir (AList.update c m' es)))"

subsection \<open>The functions of package os that the backend calls\<close>

definition os_Stat :: "string \<Rightarrow> node \<Rightarrow> error option" where
  "os_Stat name fs =
     (case resolve (path_of name) fs of Inl e \<Rightarrow> Some (PathError e) | Inr n \<Rightarrow> None)"

definition os_ReadFile :: "string \<Rightarrow> node \<Rightarrow> string \<times> error option" where
  "os_ReadFile name fs =
     (case resolve (path_of name) fs of
        Inl e \<Rightarrow> ([], Some (PathError e))
      | Inr (File d) \<Rightarrow> (d, None)
      | Inr (Dir es) \<Rightarrow> ([], Some (PathError EISDIR)))"

definition os_WriteFile :: "string \<Rightarrow> string \<Rightarrow> node \<Rightarrow> error option \<times> node" where
  "os_WriteFile name d fs =
     (case write_at (path_of name) d fs of
        Inl e \<Rightarrow> (Some (PathError e), fs)
      | Inr fs' \<Rightarrow> (None, fs'))"

definition os_Remove :: "string \<Rightarrow> node \<Rightarrow> error option \<times> node" where
  "os_Remove name fs =
     (case remove_at (path_of name) fs of
        Inl e \<Rightarrow> (Some (PathError e), fs)
      | Inr fs' \<Rightarrow> (None, fs'))"

text \<open>
  \<open>os.RemoveAll\<close> returns nil at once for the empty name, and refuses a name that ends
  in a dot component.
\<close>

definition endsWithDot :: "string \<Rightarrow> bool" where
  "endsWithDot name =
     (name = ''.'' \<or>
      (2 \<le> length name \<and> last name = CHR ''.'' \<and> last (butlast name) = CHR ''/''))"

definition os_RemoveAll :: "string \<Rightarrow> node \<Rightarrow> error option \<times> node" where
  "os_RemoveAll name fs =
     (if name = [] then (None, fs)
      else if endsWithDot name then (Some (PathError EINVAL), fs)
      else (case removeAll_at (path_of name) fs of
              (None, fs') \<Rightarrow> (None, fs')
            | (Some e, fs') \<Rightarrow> (Some (PathError e), fs')))"

text \<open>
  \<open>os.MkdirAll\<close> first stats the name as it is given: when that finds a regular file
  (the name then has no trailing slash) the error is \<open>ENOTDIR\<close>.
\<close>

definition os_MkdirAll :: "string \<Rightarrow> node \<Rightarrow> error option \<times> node" where
  "os_MkdirAll name fs =
     (case mkdirAll_at (path_of name) fs of
        Inl e \<Rightarrow>
          (case resolve (path_of name) fs of
             Inr (File d) \<Rightarrow>
               (if name \<noteq> [] \<and> last name = CHR ''/'' then (Some (PathError e), fs)
                else (Some (PathError ENOTDIR), fs))
           | Inr (Dir es) \<Rightarrow> (Some (PathError e), fs)
           | Inl r \<Rightarrow> (Some (PathError e), fs))
      | Inr fs' \<Rightarrow> (None, fs'))"

text \<open>\<open>os.ReadDir\<close> returns the entries of a directory sorted by file name.\<close>

definition os_ReadDir :: "string \<Rightarrow> node \<Rightarrow> string list \<times> error option" where
  "os_ReadDir name fs =
     (case resolve (path_of name) fs of
        Inl e \<Rightarrow> ([], Some (PathError e))
      | Inr (File d) \<Rightarrow> ([], Some (PathError ENOTDIR))
      | Inr (Dir es) \<Rightarrow> (sort (map fst es), None))"

section \<open>The filesystem backend (store/fs/fs.go)\<close>

record Client =
  DBDir :: string
  IsOpen :: bool

definition ScalarDir :: "Client \<Rightarrow> string" where
  "ScalarDir j = DBDir j @ ''/scalars/''"

definition HashDir :: "Client \<Rightarrow> string" where
  "HashDir j = DBDir j @ ''/hashes/''"

definition notOpen :: error where
  "notOpen = ErrorString ''DB is not open''"

definition NewClient :: "string \<Rightarrow> Client" where
  "NewClient addr = \<lparr>DBDir = addr, IsOpen = False\<rparr>"


definition Close :: "Client \<Rightarrow> Client" where
  "Close j = j\<lparr>IsOpen := False\<rparr>"

definition FlushDB :: "Client \<Rightarrow> node \<Rightarrow> Client \<times> node" where
  "FlushDB j fs = (j, snd (os_RemoveAll (DBDir j) fs))"

definition Get :: "Client \<Rightarrow> string \<Rightarrow> node \<Rightarrow> string Cmd" where
  "Get c key fs =
     (if IsOpen c then
        (case os_ReadFile (ScalarDir c @ key) fs of (d, e) \<Rightarrow> NewStringCmd d e)
      else NewStringCmd [] (Some notOpen))"

definition Set :: "Client \<Rightarrow> string \<Rightarrow> string \<Rightarrow> node \<Rightarrow> string Cmd \<times> node" where
  "Set c key v fs =
     (if IsOpen c then
        (case os_WriteFile (DBDir c @ ''/scalars/'' @ key) v fs of
           (e, fs') \<Rightarrow> (NewStatusCmd ''OK'' e, fs'))
      else (NewStatusCmd [] (Some notOpen), fs))"

text \<open>
  Indexing a slice out of range panics with the index and the length in the message;
  \<open>keys[0]\<close> does so on an empty argument list.
\<close>

fun nat_dec :: "nat \<Rightarrow> string" where
  "nat_dec n =
     (if n < 10 then [''0123456789'' ! n]
      else nat_dec (n div 10) @ [''0123456789'' ! (n mod 10)])"

declare nat_dec.simps [simp del]

definition index_panic :: "nat \<Rightarrow> nat \<Rightarrow> string" where
  "index_panic i n =
     ''runtime error: index out of range ['' @ nat_dec i @ ''] with length '' @ nat_dec n"

definition Del :: "Client \<Rightarrow> string list \<Rightarrow> node \<Rightarrow> (int Cmd \<times> node) outcome" where
  "Del c keys fs =
     (if IsOpen c then
        (case keys of
           [] \<Rightarrow> Panic (index_panic 0 0)
         | k0 # ks \<Rightarrow>
             (case os_Remove (ScalarDir c @ k0) fs of
                (e, fs') \<Rightarrow> Return (NewIntCmd (int (length keys)) e, fs')))
      else Return (NewIntCmd 0 (Some notOpen), fs))"

definition Keys :: "Client \<Rightarrow> string \<Rightarrow> node \<Rightarrow> string list Cmd" where
  "Keys c pattern fs =
     (case os_ReadDir (ScalarDir c) fs of
        (es1, Some e) \<Rightarrow> NewStringSliceCmd [] (Some e)
      | (es1, None) \<Rightarrow>
          (case os_ReadDir (HashDir c) fs of
             (es2, Some e) \<Rightarrow> NewStringSliceCmd [] (Some e)
           | (es2, None) \<Rightarrow> NewStringSliceCmd (es1 @ es2) None))"

definition Exists :: "Client \<Rightarrow> string list \<Rightarrow> node \<Rightarrow> int Cmd outcome" where
  "Exists c keys fs =
     (if IsOpen c then
        (case keys of
           [] \<Rightarrow> Panic (index_panic 0 0)
         | k0 # ks \<Rightarrow>
             (case os_Stat (ScalarDir c @ k0) fs of
                Some e \<Rightarrow> Return (NewIntCmd 0 (Some e))
              | None \<Rightarrow> Return (NewIntCmd 1 None)))
      else Return (NewIntCmd 0 None))"

definition HGet :: "Client \<Rightarrow> string \<Rightarrow> string \<Rightarrow> node \<Rightarrow> string Cmd" where
  "HGet c hash key fs =
     (if IsOpen c then
        (case os_ReadFile (HashDir c @ hash @ ''/'' @ key) fs of
           (d, Some e) \<Rightarrow> NewStringCmd [] (Some e)
         | (d, None) \<Rightarrow> NewStringCmd d None)
      else NewStringCmd [] (Some notOpen))"

definition type_conflict :: "string \<Rightarrow> error" where
  "type_conflict hash =
     ErrorString (''key '' @ [CHR 0x22] @ hash @ [CHR 0x22] @ '' exists as a scalar, cannot be a hash'')"

text \<open>
  \<open>HSet\<close> as written: the result of \<open>Exists\<close> decides first; the two later failure
  branches return the error of that result (not their own), and the last statement of the
  open branch builds a result without returning it, so control falls through to the
  final return.
\<close>

definition HSet :: "Client \<Rightarrow> string \<Rightarrow> string \<Rightarrow> string \<Rightarrow> node \<Rightarrow> (int Cmd \<times> node) outcome" where
  "HSet c hash key v fs =
     (if IsOpen c then
        (case Exists c [hash] fs of
           Panic m \<Rightarrow> Panic m
         | Return rec \<Rightarrow>
             (if Err rec \<noteq> None then Return (NewIntCmd 0 (Err rec), fs)
              else if Val rec > 0 then Return (NewIntCmd 0 (Some (type_conflict hash)), fs)
              else
                (case os_MkdirAll (HashDir c @ hash) fs of
                   (Some e, fs1) \<Rightarrow> Return (NewIntCmd 0 (Err rec), fs1)
                 | (None, fs1) \<Rightarrow>
                     (case os_WriteFile (HashDir c @ hash @ ''/'' @ key) v fs1 of
                        (Some e, fs2) \<Rightarrow> Return (NewIntCmd 0 (Err rec), fs2)
                      | (None, fs2) \<Rightarrow> Return (NewIntCmd 0 (Some notOpen), fs2)))))
      else Return (NewIntCmd 0 (Some notOpen), fs))"

definition HDel :: "Client \<Rightarrow> string \<Rightarrow> string \<Rightarrow> node \<Rightarrow> int Cmd \<times> node" where
  "HDel c hash key fs =
     (if IsOpen c then
        (case os_Remove (HashDir c @ hash @ ''/'' @ key) fs of
           (Some e, fs1) \<Rightarrow> (NewIntCmd 0 (Some e), fs1)
         | (None, fs1) \<Rightarrow>
             (case os_ReadDir (HashDir c @ hash) fs1 of
                (entries, Some e) \<Rightarrow> (NewIntCmd 0 (Some e), fs1)
              | (entries, None) \<Rightarrow>
                  (if length entries = 0 then
                     (case os_RemoveAll (HashDir c @ hash) fs1 of
                        (Some e, fs2) \<Rightarrow> (NewIntCmd 0 (Some e), fs2)
                      | (None, fs2) \<Rightarrow> (NewIntCmd (int (length entries)) None, fs2))
                   else (NewIntCmd (int (length entries)) None, fs1))))
      else (NewIntCmd 0 (Some notOpen), fs))"

definition HKeys :: "Client \<Rightarrow> string \<Rightarrow> node \<Rightarrow> string list Cmd" where
  "HKeys c hash fs =
     (if IsOpen c then
        (case os_Stat (HashDir c @ hash) fs of
           None \<Rightarrow>
             (case os_ReadDir (HashDir c @ hash) fs of
                (entries, Some e) \<Rightarrow> NewStringSliceCmd [] (Some e)
              | (entries, None) \<Rightarrow> NewStringSliceCmd entries None)
         | Some e \<Rightarrow> NewStringSliceCmd [] (Some e))
      else NewStringSliceCmd [] (Some notOpen))"

definition HExists :: "Client \<Rightarrow> string \<Rightarrow> string \<Rightarrow> node \<Rightarrow> bool Cmd" where
  "HExists c hash key fs =
     (if IsOpen c then
        (case os_Stat (HashDir c @ hash @ ''/'' @ key) fs of
           Some e \<Rightarrow> NewBoolCmd False (Some e)
         | None \<Rightarrow> NewBoolCmd True None)
      else NewBoolCmd False (Some notOpen))"

definition Ping :: "Client \<Rightarrow> string Cmd" where
  "Ping c = (if IsOpen c then NewStatusCmd ''PONG'' None else NewStatusCmd [] (Some notOpen))"

section \<open>The command dispatcher (jkv-cli/main.go)\<close>

text \<open>
  The model follows \<open>ProcessCmd\<close> of \<open>jkv-cli/main.go\<close>. The repository also holds an
  older copy of the dispatcher. Its switch has the same cases with the same tests and the
  same token accesses; it differs in the type of the Redis receiver, in \<open>KEYS\<close> (the
  older copy prints the keys of either backend) and in the reply of \<open>EXISTS\<close> (the older
  copy prints \<open>(integer) 1\<close> or \<open>(integer) 0\<close> with a line end).
\<close>

subsection \<open>Tokens, verbs and replies\<close>

text \<open>
  \<open>strings.Fields\<close> cuts the line at runs of white space and \<open>strings.ToUpper\<close> maps
  letters to upper case. Both are modelled on ASCII; the theorems below speak of the
  token list and of the upper-cased verb, whatever the line was.
\<close>

definition isSpace :: "char \<Rightarrow> bool" where
  "isSpace c = (c \<in> set [CHR 0x09, CHR 0x0A, CHR 0x0B, CHR 0x0C, CHR 0x0D, CHR 0x20])"

definition Fields :: "string \<Rightarrow> string list" where
  "Fields s = split_acc isSpace [] s"

definition upper_char :: "char \<Rightarrow> char" where
  "upper_char c =
     (case map_of (zip ''abcdefghijklmnopqrstuvwxyz'' ''ABCDEFGHIJKLMNOPQRSTUVWXYZ'') c of
        None \<Rightarrow> c
      | Some u \<Rightarrow> u)"

definition ToUpper :: "string \<Rightarrow> string" where
  "ToUpper s = map upper_char s"

definition errno_text :: "errno \<Rightarrow> string" where
  "errno_text e =
     (case e of
        ENOENT \<Rightarrow> ''no such file or directory''
      | ENOTDIR \<Rightarrow> ''not a directory''
      | EISDIR \<Rightarrow> ''is a directory''
      | ENOTEMPTY \<Rightarrow> ''directory not empty''
      | EINVAL \<Rightarrow> ''invalid argument''
      | EBUSY \<Rightarrow> ''device or resource busy''
      | EEXIST \<Rightarrow> ''file exists'')"

text \<open>
  The text of an error, as \<open>err.Error()\<close> gives it. For a path error the model has the
  text of the errno alone; package \<open>os\<close> puts the operation and the path before it. No
  theorem below depends on the text of a path error.
\<close>

definition Error :: "error \<Rightarrow> string" where
  "Error e = (case e of ErrorString m \<Rightarrow> m | PathError n \<Rightarrow> errno_text n | EOF \<Rightarrow> ''EOF'')"

definition int_dec :: "int \<Rightarrow> string" where
  "int_dec i = (if i < 0 then CHR ''-'' # nat_dec (nat (- i)) else nat_dec (nat i))"

definition quoted :: "string \<Rightarrow> string" where
  "quoted v = [CHR 0x22] @ v @ [CHR 0x22]"

definition nil_reply :: string where
  "nil_reply = ''(nil)''"

definition syntax_error_reply :: string where
  "syntax_error_reply = ''(error) ERR syntax error''"

definition wrongtype_reply :: string where
  "wrongtype_reply =
     ''(error) WRONGTYPE Operation against a key holding the wrong kind of value''"

definition arity_error_reply :: "string \<Rightarrow> string" where
  "arity_error_reply name =
     ''(error) ERR wrong number of arguments for '' @ [CHR 0x27] @ name @ [CHR 0x27] @ '' command''"

definition unknown_command_reply :: "string \<Rightarrow> string" where
  "unknown_command_reply t =
     ''(error) ERR unknown command '' @ [CHR 0x27] @ t @ [CHR 0x27] @ '', with args beginning with:''"

subsection \<open>The two backends behind the dispatcher\<close>

text \<open>
  The dispatcher receives its backend as an empty interface and asks for its type at every
  call: a \<open>*redis.Client\<close>, whose methods return command results, or else a
  \<open>*fs.JKV_DB\<close>, whose methods return plain values and errors. Neither type is among the
  sources, so both are parameters: a record of methods over a backend state \<open>'s\<close>. Each
  method returns its result and the new state.
\<close>

record 's redis_Client =
  r_FlushDB :: "'s \<Rightarrow> 's"
  r_HGet :: "string \<Rightarrow> string \<Rightarrow> 's \<Rightarrow> string Cmd \<times> 's"
  r_Exists :: "string list \<Rightarrow> 's \<Rightarrow> int Cmd \<times> 's"
  r_HSet :: "string \<Rightarrow> string \<Rightarrow> string \<Rightarrow> 's \<Rightarrow> int Cmd \<times> 's"
  r_HDel :: "string \<Rightarrow> string \<Rightarrow> 's \<Rightarrow> int Cmd \<times> 's"
  r_HKeys :: "string \<Rightarrow> 's \<Rightarrow> string list Cmd \<times> 's"
  r_HExists :: "string \<Rightarrow> string \<Rightarrow> 's \<Rightarrow> bool Cmd \<times> 's"
  r_Get :: "string \<Rightarrow> 's \<Rightarrow> string Cmd \<times> 's"
  r_Set :: "string \<Rightarrow> string \<Rightarrow> 's \<Rightarrow> string Cmd \<times> 's"
  r_Del :: "string list \<Rightarrow> 's \<Rightarrow> int Cmd \<times> 's"
  r_Keys :: "string \<Rightarrow> 's \<Rightarrow> string list Cmd \<times> 's"

record 's fs_JKV_DB =
  f_FLUSHDB :: "'s \<Rightarrow> 's"
  f_HGET :: "string \<Rightarrow> string \<Rightarrow> 's \<Rightarrow> (string \<times> error option) \<times> 's"
  f_EXISTS :: "string \<Rightarrow> 's \<Rightarrow> bool \<times> 's"
  f_HSET :: "string \<Rightarrow> string \<Rightarrow> string \<Rightarrow> 's \<Rightarrow> error option \<times> 's"
  f_HDEL :: "string \<Rightarrow> string \<Rightarrow> 's \<Rightarrow> error option \<times> 's"
  f_HKEYS :: "string \<Rightarrow> 's \<Rightarrow> (string list \<times> error option) \<times> 's"
  f_HEXISTS :: "string \<Rightarrow> string \<Rightarrow> 's \<Rightarrow> bool \<times> 's"
  f_GET :: "string \<Rightarrow> 's \<Rightarrow> (string \<times> error option) \<times> 's"
  f_SET :: "string \<Rightarrow> string \<Rightarrow> 's \<Rightarrow> error option \<times> 's"
  f_DEL :: "string \<Rightarrow> 's \<Rightarrow> error option \<times> 's"
  f_KEYS :: "string \<Rightarrow> 's \<Rightarrow> (string list \<times> error option) \<times> 's"

datatype 's db = Redis "'s redis_Client" | FS "'s fs_JKV_DB"

text \<open>
  What a command leaves behind: the backend state, the text written to standard output
  (one entry for each print call) and, as a ghost log, the backend methods invoked.
\<close>

datatype call =
    CallFlushDB
  | CallHGet string string
  | CallExists string
  | CallHSet string string string
  | CallHDel string string
  | CallHKeys string
  | CallHExists string string
  | CallGet string
  | CallSet string string
  | CallDel string
  | CallKeys string

record 's world =
  state :: 's
  printed :: "string list"
  calls :: "call list"

datatype 's result = Returned "'s world" | Panicked string "'s world"

definition Print :: "string \<Rightarrow> 's world \<Rightarrow> 's world" where
  "Print t w = w\<lparr>printed := printed w @ [t]\<rparr>"

definition Println :: "string \<Rightarrow> 's world \<Rightarrow> 's world" where
  "Println t w = Print (t @ [CHR 0x0A]) w"

definition invoked :: "call \<Rightarrow> 's \<Rightarrow> 's world \<Rightarrow> 's world" where
  "invoked c s' w = w\<lparr>state := s', calls := calls w @ [c]\<rparr>"

definition tok :: "string list \<Rightarrow> nat \<Rightarrow> 's world \<Rightarrow> (string \<Rightarrow> 's result) \<Rightarrow> 's result" where
  "tok tokens i w k =
     (if i < length tokens then k (tokens ! i)
      else Panicked (index_panic i (length tokens)) w)"

subsection \<open>Invoking a backend method\<close>

text \<open>
  Each definition is one \<open>if r, ok := db.(*redis.Client); ok { ... } else { ... }\<close> of
  the source: it invokes the method of whichever backend is there, logs the invocation and
  yields what the surrounding code reads from the result.
\<close>

definition call_FlushDB :: "'s db \<Rightarrow> 's world \<Rightarrow> 's world" where
  "call_FlushDB d w =
     (case d of
        Redis r \<Rightarrow> invoked CallFlushDB (r_FlushDB r (state w)) w
      | FS f \<Rightarrow> invoked CallFlushDB (f_FLUSHDB f (state w)) w)"

definition call_HGet :: "'s db \<Rightarrow> string \<Rightarrow> string \<Rightarrow> 's world \<Rightarrow> (string \<times> error option) \<times> 's world" where
  "call_HGet d h k w =
     (case d of
        Redis r \<Rightarrow>
          (case r_HGet r h k (state w) of
             (rec, s') \<Rightarrow> ((Val rec, Err rec), invoked (CallHGet h k) s' w))
      | FS f \<Rightarrow>
          (case f_HGET f h k (state w) of
             (ve, s') \<Rightarrow> (ve, invoked (CallHGet h k) s' w)))"

text \<open>The existence query of \<open>HSET\<close>: \<open>r.Exists(ctx, tokens[1]).Val() != 0\<close>, or \<open>EXISTS\<close>.\<close>

definition call_Exists_hset :: "'s db \<Rightarrow> string \<Rightarrow> 's world \<Rightarrow> bool \<times> 's world" where
  "call_Exists_hset d k w =
     (case d of
        Redis r \<Rightarrow>
          (case r_Exists r [k] (state w) of
             (rec, s') \<Rightarrow> (Val rec \<noteq> 0, invoked (CallExists k) s' w))
      | FS f \<Rightarrow>
          (case f_EXISTS f k (state w) of
             (b, s') \<Rightarrow> (b, invoked (CallExists k) s' w)))"

definition call_HSet :: "'s db \<Rightarrow> string \<Rightarrow> string \<Rightarrow> string \<Rightarrow> 's world \<Rightarrow> error option \<times> 's world" where
  "call_HSet d h k v w =
     (case d of
        Redis r \<Rightarrow>
          (case r_HSet r h k v (state w) of
             (rec, s') \<Rightarrow> (Err rec, invoked (CallHSet h k v) s' w))
      | FS f \<Rightarrow>
          (case f_HSET f h k v (state w) of
             (e, s') \<Rightarrow> (e, invoked (CallHSet h k v) s' w)))"

definition call_HDel :: "'s db \<Rightarrow> string \<Rightarrow> string \<Rightarrow> 's world \<Rightarrow> error option \<times> 's world" where
  "call_HDel d h k w =
     (case d of
        Redis r \<Rightarrow>
          (case r_HDel r h k (state w) of
             (rec, s') \<Rightarrow> (Err rec, invoked (CallHDel h k) s' w))
      | FS f \<Rightarrow>
          (case f_HDEL f h k (state w) of
             (e, s') \<Rightarrow> (e, invoked (CallHDel h k) s' w)))"

definition call_HKeys :: "'s db \<Rightarrow> string \<Rightarrow> 's world \<Rightarrow> (string list \<times> error option) \<times> 's world" where
  "call_HKeys d h w =
     (case d of
        Redis r \<Rightarrow>
          (case r_HKeys r h (state w) of
             (rec, s') \<Rightarrow> ((Val rec, Err rec), invoked (CallHKeys h) s' w))
      | FS f \<Rightarrow>
          (case f_HKEYS f h (state w) of
             (ve, s') \<Rightarrow> (ve, invoked (CallHKeys h) s' w)))"

definition call_HExists :: "'s db \<Rightarrow> string \<Rightarrow> string \<Rightarrow> 's world \<Rightarrow> bool \<times> 's world" where
  "call_HExists d h k w =
     (case d of
        Redis r \<Rightarrow>
          (case r_HExists r h k (state w) of
             (rec, s') \<Rightarrow> (Val rec, invoked (CallHExists h k) s' w))
      | FS f \<Rightarrow>
          (case f_HEXISTS f h k (state w) of
             (b, s') \<Rightarrow> (b, invoked (CallHExists h k) s' w)))"

definition call_Get :: "'s db \<Rightarrow> string \<Rightarrow> 's world \<Rightarrow> (string \<times> error option) \<times> 's world" where
  "call_Get d k w =
     (case d of
        Redis r \<Rightarrow>
          (case r_Get r k (state w) of
             (rec, s') \<Rightarrow> ((Val rec, Err rec), invoked (CallGet k) s' w))
      | FS f \<Rightarrow>
          (case f_GET f k (state w) of
             (ve, s') \<Rightarrow> (ve, invoked (CallGet k) s' w)))"

definition call_Set :: "'s db \<Rightarrow> string \<Rightarrow> string \<Rightarrow> 's world \<Rightarrow> error option \<times> 's world" where
  "call_Set d k v w =
     (case d of
        Redis r \<Rightarrow>
          (case r_Set r k v (state w) of
             (rec, s') \<Rightarrow> (Err rec, invoked (CallSet k v) s' w))
      | FS f \<Rightarrow>
          (case f_SET f k v (state w) of
             (e, s') \<Rightarrow> (e, invoked (CallSet k v) s' w)))"

definition call_Del :: "'s db \<Rightarrow> string \<Rightarrow> 's world \<Rightarrow> error option \<times> 's world" where
  "call_Del d k w =
     (case d of
        Redis r \<Rightarrow>
          (case r_Del r [k] (state w) of
             (rec, s') \<Rightarrow> (Err rec, invoked (CallDel k) s' w))
      | FS f \<Rightarrow>
          (case f_DEL f k (state w) of
             (e, s') \<Rightarrow> (e, invoked (CallDel k) s' w)))"

text \<open>
  \<open>KEYS\<close>: the Redis branch reads only the error of the result, so the list printed
  afterwards is the still empty \<open>values\<close> variable of the function.
\<close>

definition call_Keys :: "'s db \<Rightarrow> string \<Rightarrow> 's world \<Rightarrow> (string list \<times> error option) \<times> 's world" where
  "call_Keys d p w =
     (case d of
        Redis r \<Rightarrow>
          (case r_Keys r p (state w) of
             (rec, s') \<Rightarrow> (([], Err rec), invoked (CallKeys p) s' w))
      | FS f \<Rightarrow>
          (case f_KEYS f p (state w) of
             (ve, s') \<Rightarrow> (ve, invoked (CallKeys p) s' w)))"

text \<open>\<open>EXISTS\<close>: the count of the Redis result, or 1 and 0 for the boolean of the other.\<close>

definition call_Exists :: "'s db \<Rightarrow> string \<Rightarrow> 's world \<Rightarrow> int \<times> 's world" where
  "call_Exists d k w =
     (case d of
        Redis r \<Rightarrow>
          (case r_Exists r [k] (state w) of
             (rec, s') \<Rightarrow> (Val rec, invoked (CallExists k) s' w))
      | FS f \<Rightarrow>
          (case f_EXISTS f k (state w) of
             (b, s') \<Rightarrow> ((if b then 1 else 0), invoked (CallExists k) s' w)))"

lemmas call_defs =
  call_FlushDB_def call_HGet_def call_Exists_hset_def call_HSet_def call_HDel_def
  call_HKeys_def call_HExists_def call_Get_def call_Set_def call_Del_def call_Keys_def
  call_Exists_def

subsection \<open>The cases of the switch\<close>

text \<open>A list reply: \<open>for i, v := range values { fmt.Printf("%d) \"%s\"\n", i+1, v) }\<close>.\<close>

fun print_list :: "nat \<Rightarrow> string list \<Rightarrow> 's world \<Rightarrow> 's world" where
  "print_list i [] w = w"
| "print_list i (v # vs) w =
     print_list (i + 1) vs (Println (nat_dec (i + 1) @ '') '' @ quoted v) w)"

definition case_FLUSHDB :: "'s db \<Rightarrow> string list \<Rightarrow> 's world \<Rightarrow> 's result" where
  "case_FLUSHDB d tokens w =
     (if length tokens = 1 then Returned (Println ''OK'' (call_FlushDB d w))
      else Returned (Println syntax_error_reply w))"

definition case_HGET :: "'s db \<Rightarrow> string list \<Rightarrow> 's world \<Rightarrow> 's result" where
  "case_HGET d tokens w =
     (if length tokens = 3 then
        tok tokens 1 w (\<lambda>t1. tok tokens 2 w (\<lambda>t2.
          (case call_HGet d t1 t2 w of
             ((v, e), w1) \<Rightarrow>
               (if e \<noteq> None then Returned (Println nil_reply w1)
                else Returned (Println (quoted v) w1)))))
      else Returned (Println nil_reply w))"

text \<open>
  The loop of \<open>HSET\<close> over the field/value pairs: it stops at the first error, printing
  its text, and otherwise prints the number of rounds.
\<close>

function hset_loop :: "'s db \<Rightarrow> string list \<Rightarrow> string \<Rightarrow> nat \<Rightarrow> 's world \<Rightarrow> 's result" where
  "hset_loop d tokens hash n w =
     (if n < (length tokens - 1) div 2 then
        (if 2 + n * 2 < length tokens then
           (if 2 + n * 2 + 1 < length tokens then
              (case call_HSet d hash (tokens ! (2 + n * 2)) (tokens ! (2 + n * 2 + 1)) w of
                 (Some e, w1) \<Rightarrow> Returned (Println (Error e) w1)
               | (None, w1) \<Rightarrow> hset_loop d tokens hash (n + 1) w1)
            else Panicked (index_panic (2 + n * 2 + 1) (length tokens)) w)
         else Panicked (index_panic (2 + n * 2) (length tokens)) w)
      else Returned (Println (''(integer) '' @ nat_dec n) w))"
  by pat_completeness auto
termination
  by (relation "measure (\<lambda>(d, tokens, hash, n, w). (length tokens - 1) div 2 - n)") auto

declare hset_loop.simps [simp del]

definition case_HSET :: "'s db \<Rightarrow> string list \<Rightarrow> 's world \<Rightarrow> 's result" where
  "case_HSET d tokens w =
     (let w0 = Println ''add -x support'' w in
      if length tokens > 2 then
        tok tokens 1 w0 (\<lambda>t1.
          (case call_Exists_hset d t1 w0 of
             (ex, w1) \<Rightarrow>
               (if ex then Returned (Println wrongtype_reply w1)
                else if length tokens \<ge> 4 \<and> (length tokens - 2) mod 2 = 0 then
                  tok tokens 1 w1 (\<lambda>hash. hset_loop d tokens hash 0 w1)
                else Returned (Println (arity_error_reply ''hset'') w1))))
      else Returned (Println nil_reply w0))"

text \<open>
  \<open>HDEL\<close> tests for two tokens and then reads \<open>tokens[1]\<close> and \<open>tokens[2]\<close> as the
  arguments of the call. On success it prints the function's \<open>value\<close> variable, which
  this case never assigns.
\<close>

definition case_HDEL :: "'s db \<Rightarrow> string list \<Rightarrow> 's world \<Rightarrow> 's result" where
  "case_HDEL d tokens w =
     (if length tokens = 2 then
        tok tokens 1 w (\<lambda>t1. tok tokens 2 w (\<lambda>t2.
          (case call_HDel d t1 t2 w of
             (e, w1) \<Rightarrow>
               (if e \<noteq> None then Returned (Println nil_reply w1)
                else Returned (Println (quoted []) w1)))))
      else Returned (Println nil_reply w))"

definition case_HKEYS :: "'s db \<Rightarrow> string list \<Rightarrow> 's world \<Rightarrow> 's result" where
  "case_HKEYS d tokens w =
     (if length tokens = 2 then
        tok tokens 1 w (\<lambda>t1.
          (case call_HKeys d t1 w of
             ((vs, e), w1) \<Rightarrow>
               (if e \<noteq> None then Returned (Println nil_reply w1)
                else Returned (print_list 0 vs w1))))
      else Returned (Println (arity_error_reply ''hkeys'') w))"

definition case_HEXISTS :: "'s db \<Rightarrow> string list \<Rightarrow> 's world \<Rightarrow> 's result" where
  "case_HEXISTS d tokens w =
     (if length tokens = 3 then
        tok tokens 1 w (\<lambda>t1. tok tokens 2 w (\<lambda>t2.
          (case call_HExists d t1 t2 w of
             (ex, w1) \<Rightarrow>
               (if ex then Returned (Println ''(integer) 1'' w1)
                else Returned (Println ''(integer) 0'' w1)))))
      else Returned (Println (arity_error_reply ''exists'') w))"

definition case_GET :: "'s db \<Rightarrow> string list \<Rightarrow> 's world \<Rightarrow> 's result" where
  "case_GET d tokens w =
     (if length tokens = 2 then
        tok tokens 1 w (\<lambda>t1.
          (case call_Get d t1 w of
             ((v, e), w1) \<Rightarrow>
               (if e \<noteq> None then Returned (Println nil_reply w1)
                else Returned (Println (quoted v) w1))))
      else Returned (Println nil_reply w))"

text \<open>
  \<open>SET\<close>. With the flag \<open>-x\<close> the value comes from one \<open>Read\<close> of standard input into a
  buffer of 1048576 bytes. The read is given as what it returned: the bytes it put into the
  buffer, whose number is \<open>n\<close>, and its error. Calling \<open>Error\<close> on a nil error is a nil
  dereference.
\<close>

definition nil_dereference :: string where
  "nil_dereference = ''runtime error: invalid memory address or nil pointer dereference''"

definition case_SET :: "'s db \<Rightarrow> string list \<Rightarrow> bool \<Rightarrow> string \<times> error option \<Rightarrow> 's world \<Rightarrow> 's result" where
  "case_SET d tokens opt_x stdin_read w =
     (if opt_x then
        (if length tokens = 2 then
           (case stdin_read of
              (buf, err) \<Rightarrow>
                (let n = length buf in
                 if n = 0 then
                   (if err \<noteq> Some EOF then
                      (case err of
                         None \<Rightarrow> Panicked nil_dereference w
                       | Some e \<Rightarrow> Panicked (Error e) w)
                    else Returned w)
                 else
                   tok tokens 1 w (\<lambda>t1.
                     (case call_Set d t1 (take (n - 1) buf) w of
                        (e, w1) \<Rightarrow>
                          (if e \<noteq> None then Returned (Println nil_reply w1)
                           else Returned (Println ''OK'' w1))))))
         else Returned (Println (arity_error_reply ''set'') w))
      else
        (if length tokens = 3 then
           tok tokens 1 w (\<lambda>t1. tok tokens 2 w (\<lambda>t2.
             (case call_Set d t1 t2 w of
                (e, w1) \<Rightarrow>
                  (if e \<noteq> None then Returned (Println nil_reply w1)
                   else Returned (Println ''OK'' w1)))))
         else Returned (Println (arity_error_reply ''set'') w)))"

definition case_DEL :: "'s db \<Rightarrow> string list \<Rightarrow> 's world \<Rightarrow> 's result" where
  "case_DEL d tokens w =
     (if length tokens = 2 then
        tok tokens 1 w (\<lambda>t1.
          (case call_Del d t1 w of
             (e, w1) \<Rightarrow>
               (if e \<noteq> None then Returned (Println nil_reply w1)
                else Returned (Println (quoted []) w1))))
      else Returned (Println nil_reply w))"

definition case_KEYS :: "'s db \<Rightarrow> string list \<Rightarrow> 's world \<Rightarrow> 's result" where
  "case_KEYS d tokens w =
     (if length tokens = 2 then
        tok tokens 1 w (\<lambda>t1.
          (case call_Keys d t1 w of
             ((vs, e), w1) \<Rightarrow>
               (if e \<noteq> None then Returned (Println nil_reply w1)
                else Returned (print_list 0 vs w1))))
      else Returned (Println (arity_error_reply ''keys'') w))"

text \<open>The reply of \<open>EXISTS\<close> is printed without a line end.\<close>

definition case_EXISTS :: "'s db \<Rightarrow> string list \<Rightarrow> 's world \<Rightarrow> 's result" where
  "case_EXISTS d tokens w =
     (if length tokens = 2 then
        tok tokens 1 w (\<lambda>t1.
          (case call_Exists d t1 w of
             (nvalues, w1) \<Rightarrow> Returned (Print (''(integer) '' @ int_dec nvalues) w1)))
      else Returned (Println (arity_error_reply ''exists'') w))"

subsection \<open>ProcessCmd\<close>

definition ProcessCmd :: "'s db \<Rightarrow> string \<Rightarrow> bool \<Rightarrow> string \<times> error option \<Rightarrow> 's world \<Rightarrow> 's result" where
  "ProcessCmd d cmd opt_x stdin_read w =
     (let tokens = Fields cmd in
      if length tokens = 0 then Returned w
      else
        tok tokens 0 w (\<lambda>t0.
          (let verb = ToUpper t0 in
           if verb = ''FLUSHDB'' then case_FLUSHDB d tokens w
           else if verb = ''HGET'' then case_HGET d tokens w
           else if verb = ''HSET'' then case_HSET d tokens w
           else if verb = ''HDEL'' then case_HDEL d tokens w
           else if verb = ''HKEYS'' then case_HKEYS d tokens w
           else if verb = ''HEXISTS'' then case_HEXISTS d tokens w
           else if verb = ''GET'' then case_GET d tokens w
           else if verb = ''SET'' then case_SET d tokens opt_x stdin_read w
           else if verb = ''DEL'' then case_DEL d tokens w
           else if verb = ''KEYS'' then case_KEYS d tokens w
           else if verb = ''EXISTS'' then case_EXISTS d tokens w
           else
             tok tokens 0 w (\<lambda>t. Returned (Println (unknown_command_reply t) w)))))"

subsection \<open>A backend and a world for running commands\<close>

text \<open>
  The theorems about the dispatcher hold for every backend. To run a command on a
  concrete input some backend is needed: this one stores nothing and lets every method
  succeed with an empty result.
\<close>

definition null_backend :: "unit fs_JKV_DB" where
  "null_backend =
     \<lparr>f_FLUSHDB = (\<lambda>s. s),
      f_HGET = (\<lambda>h k s. (([], None), s)),
      f_EXISTS = (\<lambda>k s. (False, s)),
      f_HSET = (\<lambda>h k v s. (None, s)),
      f_HDEL = (\<lambda>h k s. (None, s)),
      f_HKEYS = (\<lambda>h s. (([], None), s)),
      f_HEXISTS = (\<lambda>h k s. (False, s)),
      f_GET = (\<lambda>k s. (([], None), s)),
      f_SET = (\<lambda>k v s. (None, s)),
      f_DEL = (\<lambda>k s. (None, s)),
      f_KEYS = (\<lambda>p s. (([], None), s))\<rparr>"

definition world0 :: "unit world" where
  "world0 = \<lparr>state = (), printed = [], calls = []\<rparr>"

subsection \<open>The token counts the switch accepts\<close>

text \<open>
  The verbs of the switch, and for each verb the test on the number of tokens that its
  case makes before it serves the command (for \<open>HSET\<close> the two nested tests together).
  When the test fails the case prints \<open>mismatch_reply\<close>; \<open>HSET\<close> is the exception
  described with the theorem.
\<close>

definition verbs :: "string list" where
  "verbs = [''FLUSHDB'', ''HGET'', ''HSET'', ''HDEL'', ''HKEYS'', ''HEXISTS'',
            ''GET'', ''SET'', ''DEL'', ''KEYS'', ''EXISTS'']"

definition count_accepted :: "string \<Rightarrow> bool \<Rightarrow> nat \<Rightarrow> bool" where
  "count_accepted verb opt_x n =
     (if verb = ''FLUSHDB'' then n = 1
      else if verb = ''HGET'' \<or> verb = ''HEXISTS'' then n = 3
      else if verb = ''HSET'' then n > 2 \<and> n \<ge> 4 \<and> (n - 2) mod 2 = 0
      else if verb = ''SET'' then (if opt_x then n = 2 else n = 3)
      else n = 2)"

definition mismatch_reply :: "string \<Rightarrow> string" where
  "mismatch_reply verb =
     (if verb = ''FLUSHDB'' then syntax_error_reply
      else if verb = ''HKEYS'' then arity_error_reply ''hkeys''
      else if verb = ''HEXISTS'' then arity_error_reply ''exists''
      else if verb = ''SET'' then arity_error_reply ''set''
      else if verb = ''KEYS'' then arity_error_reply ''keys''
      else if verb = ''EXISTS'' then arity_error_reply ''exists''
      else nil_reply)"

subsection \<open>Directories\<close>


section \<open>Properties of the filesystem backend\<close>

subsection \<open>Paths and the file tree\<close>

text \<open>
  How the names built by the backend split into components, and what resolving a path
  yields after a write, a removal and the removal of a subtree.
\<close>

lemma split_acc_sep:
  "sep c \<Longrightarrow> split_acc sep acc (xs @ c # ys) = split_acc sep acc xs @ split_acc sep [] ys"
  by (induction xs arbitrary: acc) auto

lemma split_acc_plain:
  "\<forall>c\<in>set k. \<not> sep c \<Longrightarrow> split_acc sep acc k = (if acc @ k = [] then [] else [acc @ k])"
  by (induction k arbitrary: acc) auto

lemma path_of_slash: "path_of (a @ CHR ''/'' # b) = path_of a @ path_of b"
  by (simp add: path_of_def split_acc_sep)

lemma path_of_plain: "plain_name k \<Longrightarrow> path_of k = [k]"
  using split_acc_plain [of k "\<lambda>c. c = CHR ''/''" "[]"]
  by (auto simp add: path_of_def plain_name_def)


lemma path_of_HashDir: "path_of (HashDir c @ k) = path_of (DBDir c) @ ''hashes'' # path_of k"
proof -
  have "HashDir c @ k = DBDir c @ CHR ''/'' # (''hashes'' @ CHR ''/'' # k)"
    by (simp add: HashDir_def)
  then show ?thesis
    by (simp only: path_of_slash) (simp add: path_of_def)
qed

lemma path_of_field:
  "path_of (HashDir c @ h @ ''/'' @ k) = path_of (DBDir c) @ ''hashes'' # path_of h @ path_of k"
proof -
  have "path_of (HashDir c @ h @ ''/'' @ k) = path_of (DBDir c) @ ''hashes'' # path_of (h @ CHR ''/'' # k)"
    using path_of_HashDir [of c "h @ ''/'' @ k"] by simp
  then show ?thesis by (simp add: path_of_slash)
qed

lemma resolve_append:
  "resolve (p @ q) fs = (case resolve p fs of Inl e \<Rightarrow> Inl e | Inr n \<Rightarrow> resolve q n)"
  by (induction p fs rule: resolve.induct) (auto split: option.splits)


lemma resolve_Cons_Inr:
  "resolve (c # cs) fs = Inr n \<Longrightarrow> \<exists>es m. fs = Dir es \<and> map_of es c = Some m \<and> resolve cs m = Inr n"
  by (cases fs) (auto split: option.splits)


lemma remove_at_Cons:
  "q \<noteq> [] \<Longrightarrow> remove_at (c # q) (Dir es) =
     (case map_of es c of
        None \<Rightarrow> Inl ENOENT
      | Some m \<Rightarrow> (case remove_at q m of Inl e \<Rightarrow> Inl e | Inr m' \<Rightarrow> Inr (Dir (AList.update c m' es))))"
  by (cases q) auto

lemma remove_at_file:
  "resolve (p @ [k]) fs = Inr (File d) \<Longrightarrow>
   \<exists>es fs1. resolve p fs = Inr (Dir es) \<and> k \<in> fst ` set es \<and> remove_at (p @ [k]) fs = Inr fs1 \<and>
     resolve p fs1 = Inr (Dir (AList.delete k es))"
proof (induction p arbitrary: fs)
  case Nil
  then show ?case
    by (cases fs) (auto split: option.splits dest: map_of_SomeD intro: rev_image_eqI)
next
  case (Cons c cs)
  from Cons.prems have "resolve (c # (cs @ [k])) fs = Inr (File d)" by simp
  from resolve_Cons_Inr [OF this] obtain es0 m
    where fs: "fs = Dir es0" and m: "map_of es0 c = Some m"
      and r: "resolve (cs @ [k]) m = Inr (File d)"
    by blast
  from Cons.IH [OF r] obtain es m1
    where 1: "resolve cs m = Inr (Dir es)" and 2: "k \<in> fst ` set es"
      and 3: "remove_at (cs @ [k]) m = Inr m1"
      and 4: "resolve cs m1 = Inr (Dir (AList.delete k es))"
    by blast
  have "remove_at ((c # cs) @ [k]) fs = Inr (Dir (AList.update c m1 es0))"
    using fs m 3 by (simp add: remove_at_Cons)
  moreover have "resolve (c # cs) (Dir (AList.update c m1 es0)) = Inr (Dir (AList.delete k es))"
    using 4 by (simp add: update_conv')
  moreover have "resolve (c # cs) fs = Inr (Dir es)"
    using fs m 1 by simp
  ultimately show ?case using 2 by blast
qed

lemma removeAll_at_Cons:
  "q \<noteq> [] \<Longrightarrow> removeAll_at (c # q) (Dir es) =
     (case map_of es c of
        None \<Rightarrow> (None, Dir es)
      | Some m \<Rightarrow> (case removeAll_at q m of (e, m') \<Rightarrow> (e, Dir (AList.update c m' es))))"
  by (cases q) auto

lemma removeAll_at_dir:
  "p \<noteq> [] \<Longrightarrow> resolve p fs = Inr n \<Longrightarrow>
   \<exists>fs2. removeAll_at p fs = (None, fs2) \<and> resolve p fs2 = Inl ENOENT"
proof (induction p arbitrary: fs)
  case Nil
  then show ?case by simp
next
  case (Cons c cs)
  show ?case
  proof (cases cs)
    case Nil
    with Cons.prems show ?thesis
      by (cases fs) (auto split: option.splits simp add: delete_conv')
  next
    case (Cons c' cs')
    with Cons.prems Cons.IH show ?thesis
      by (cases fs) (fastforce split: option.splits prod.splits simp add: update_conv')+
  qed
qed


lemma plain_not_endsWithDot: "plain_name h \<Longrightarrow> \<not> endsWithDot (x @ h)"
proof (cases h rule: rev_cases)
  case Nil
  assume "plain_name h"
  with Nil show ?thesis by (simp add: plain_name_def)
next
  case (snoc ys y)
  assume p: "plain_name h"
  show ?thesis
  proof (cases ys rule: rev_cases)
    case Nil
    with snoc p show ?thesis by (auto simp add: plain_name_def endsWithDot_def)
  next
    case (snoc zs z)
    with \<open>h = ys @ [y]\<close> p show ?thesis by (auto simp add: plain_name_def endsWithDot_def butlast_append)
  qed
qed




lemma sort_eq_Nil: "(sort xs = []) = (xs = [])"
  by (metis length_sort length_0_conv)


subsection \<open>HSet on an open store\<close>

text \<open>
  C1. For the filesystem backend with the store open, \<open>HSet(hash, field, value)\<close> is
  claimed to fail with the type conflict when a scalar named \<open>hash\<close> exists and otherwise
  to create the hash and write the field without error. The code does the first half
  only. \<open>Exists\<close> hands back the error of \<open>os.Stat\<close> when the scalar is missing, and
  \<open>HSet\<close> returns on any error of \<open>Exists\<close>: so on an open store \<open>HSet\<close> always
  returns an error (the type conflict, or the error of the failed stat) and never changes
  the file tree.
\<close>

theorem HSet_open_always_fails:
  "IsOpen c \<Longrightarrow>
   HSet c hash key v fs =
     (case os_Stat (ScalarDir c @ hash) fs of
        None \<Rightarrow> Return (NewIntCmd 0 (Some (type_conflict hash)), fs)
      | Some e \<Rightarrow> Return (NewIntCmd 0 (Some e), fs))"
  by (simp add: HSet_def Exists_def NewIntCmd_def split: option.split)

theorem HSet_open_always_fails_witness:
  "IsOpen \<lparr>DBDir = ''db'', IsOpen = True\<rparr> \<and>
   HSet \<lparr>DBDir = ''db'', IsOpen = True\<rparr> ''h'' ''f'' ''v''
     (Dir [(''db'', Dir [(''scalars'', Dir []), (''hashes'', Dir [])])])
   = Return (\<lparr>Val = 0, Err = Some (PathError ENOENT)\<rparr>,
       Dir [(''db'', Dir [(''scalars'', Dir []), (''hashes'', Dir [])])])"
  using HSet_open_always_fails [of "\<lparr>DBDir = ''db'', IsOpen = True\<rparr>" "''h''" "''f''" "''v''"
      "Dir [(''db'', Dir [(''scalars'', Dir []), (''hashes'', Dir [])])]"]
  by (simp add: os_Stat_def ScalarDir_def path_of_def NewIntCmd_def)

subsection \<open>The closed store\<close>

text \<open>
  C2, as amended. In the closed state \<open>Get\<close>, \<open>Set\<close>, \<open>Del\<close>, \<open>HGet\<close>, \<open>HSet\<close>, \<open>HDel\<close>,
  \<open>HKeys\<close>, \<open>HExists\<close> and \<open>Ping\<close> fail with the error "DB is not open", return the zero
  value and leave the file tree as it is. \<open>FlushDB\<close> has no error result and does not look
  at the flag: it does to the files what it does on an open store.
\<close>

theorem closed_store_not_open:
  "\<not> IsOpen c \<Longrightarrow>
    Get c k fs = \<lparr>Val = [], Err = Some notOpen\<rparr> \<and>
    Set c k v fs = (\<lparr>Val = [], Err = Some notOpen\<rparr>, fs) \<and>
    Del c ks fs = Return (\<lparr>Val = 0, Err = Some notOpen\<rparr>, fs) \<and>
    HGet c h k fs = \<lparr>Val = [], Err = Some notOpen\<rparr> \<and>
    HSet c h k v fs = Return (\<lparr>Val = 0, Err = Some notOpen\<rparr>, fs) \<and>
    HDel c h k fs = (\<lparr>Val = 0, Err = Some notOpen\<rparr>, fs) \<and>
    HKeys c h fs = \<lparr>Val = [], Err = Some notOpen\<rparr> \<and>
    HExists c h k fs = \<lparr>Val = False, Err = Some notOpen\<rparr> \<and>
    Ping c = \<lparr>Val = [], Err = Some notOpen\<rparr> \<and>
    FlushDB c fs = (c, snd (FlushDB (c\<lparr>IsOpen := True\<rparr>) fs))"
  by (simp add: Get_def Set_def Del_def HGet_def HSet_def HDel_def HKeys_def HExists_def
      Ping_def FlushDB_def NewCmd_defs)

theorem closed_store_not_open_witness:
  "\<not> IsOpen (NewClient ''db'') \<and>
   Get (NewClient ''db'') ''k'' (Dir []) = \<lparr>Val = [], Err = Some (ErrorString ''DB is not open'')\<rparr> \<and>
   Set (NewClient ''db'') ''k'' ''v'' (Dir []) =
     (\<lparr>Val = [], Err = Some (ErrorString ''DB is not open'')\<rparr>, Dir [])"
  using closed_store_not_open [of "NewClient ''db''" "''k''" "Dir []" "''v''"]
  by (simp add: NewClient_def notOpen_def)

text \<open>
  The claim as stated fails on a closed store that holds one scalar: \<open>Keys\<close> lists it and
  \<open>Exists\<close> answers 0, both without an error, and \<open>FlushDB\<close> removes the tree.
\<close>

theorem closed_store_counterexample:
  "\<not> IsOpen \<lparr>DBDir = ''db'', IsOpen = False\<rparr> \<and>
   Keys \<lparr>DBDir = ''db'', IsOpen = False\<rparr> ''*''
     (Dir [(''db'', Dir [(''scalars'', Dir [(''k'', File ''v'')]), (''hashes'', Dir [])])])
   = \<lparr>Val = [''k''], Err = None\<rparr> \<and>
   Exists \<lparr>DBDir = ''db'', IsOpen = False\<rparr> [''k'']
     (Dir [(''db'', Dir [(''scalars'', Dir [(''k'', File ''v'')]), (''hashes'', Dir [])])])
   = Return \<lparr>Val = 0, Err = None\<rparr> \<and>
   FlushDB \<lparr>DBDir = ''db'', IsOpen = False\<rparr>
     (Dir [(''db'', Dir [(''scalars'', Dir [(''k'', File ''v'')]), (''hashes'', Dir [])])])
   = (\<lparr>DBDir = ''db'', IsOpen = False\<rparr>, Dir [])"
  by (simp add: Keys_def Exists_def os_ReadDir_def ScalarDir_def HashDir_def path_of_def
      NewCmd_defs FlushDB_def os_RemoveAll_def endsWithDot_def AList.delete_eq)

subsection \<open>Del with several keys\<close>

text \<open>
  C5. \<open>Del(keys...)\<close> is claimed to remove every scalar key of its argument list and to
  return the number of deletions. On an open store holding the scalars \<open>a\<close> and \<open>b\<close>,
  \<open>Del(a, b)\<close> returns 2 without an error and removes \<open>a\<close> alone: \<open>b\<close> is still there.
\<close>

theorem Del_two_keys_removes_first_only:
  "Del \<lparr>DBDir = ''db'', IsOpen = True\<rparr> [''a'', ''b'']
     (Dir [(''db'', Dir [(''scalars'', Dir [(''a'', File ''1''), (''b'', File ''2'')]),
                         (''hashes'', Dir [])])])
   = Return (\<lparr>Val = 2, Err = None\<rparr>,
       Dir [(''db'', Dir [(''scalars'', Dir [(''b'', File ''2'')]), (''hashes'', Dir [])])])"
  by (simp add: Del_def os_Remove_def ScalarDir_def path_of_def NewCmd_defs AList.delete_eq)

subsection \<open>Set and then Get\<close>




subsection \<open>HDel\<close>

text \<open>
  C7. For the filesystem backend with the store open and the field present (the file of
  the field exists; hash and field are plain names), \<open>HDel(hash, field)\<close> returns without
  error, removes the field, and returns the number of entries that remain in the hash's
  directory: these are the entries it had before without the field. If that number is
  zero the directory of the hash is removed as well, and otherwise it stays with exactly
  the remaining entries; so the hash ceases to exist exactly when its last field is
  deleted.
\<close>

theorem HDel_last_field_removes_hash:
  assumes "IsOpen c" and "plain_name hash" and "plain_name key"
    and "os_ReadFile (HashDir c @ hash @ ''/'' @ key) fs = (d, None)"
  shows "\<exists>names0 names1 fs'.
     os_ReadDir (HashDir c @ hash) fs = (names0, None) \<and> key \<in> set names0 \<and>
     set names1 = set names0 - {key} \<and>
     HDel c hash key fs = (\<lparr>Val = int (length names1), Err = None\<rparr>, fs') \<and>
     os_Stat (HashDir c @ hash @ ''/'' @ key) fs' = Some (PathError ENOENT) \<and>
     (if length names1 = 0 then os_Stat (HashDir c @ hash) fs' = Some (PathError ENOENT)
      else os_ReadDir (HashDir c @ hash) fs' = (names1, None))"
proof -
  let ?H = "HashDir c @ hash"
  let ?F = "HashDir c @ hash @ ''/'' @ key"
  let ?P = "path_of ?H"
  have PF: "path_of ?F = ?P @ [key]"
    using assms(2,3) path_of_field [of c hash key] path_of_HashDir [of c hash]
    by (simp add: path_of_plain)
  have PF': "path_of (HashDir c @ hash @ CHR ''/'' # key) = ?P @ [key]"
    using PF by simp
  have Pne: "?P \<noteq> []" by (simp add: path_of_HashDir)
  from assms(4) have "resolve (?P @ [key]) fs = Inr (File d)"
    unfolding os_ReadFile_def PF by (auto split: sum.splits node.splits)
  from remove_at_file [OF this] obtain es fs1
    where 1: "resolve ?P fs = Inr (Dir es)" and 2: "key \<in> fst ` set es"
      and 3: "remove_at (?P @ [key]) fs = Inr fs1"
      and 4: "resolve ?P fs1 = Inr (Dir (AList.delete key es))"
    by blast
  let ?n0 = "sort (map fst es)"
  let ?n1 = "sort (map fst (AList.delete key es))"
  have R0: "os_ReadDir ?H fs = (?n0, None)" using 1 by (simp add: os_ReadDir_def)
  have R1: "os_ReadDir ?H fs1 = (?n1, None)" using 4 by (simp add: os_ReadDir_def)
  have Rm: "os_Remove ?F fs = (None, fs1)" using 3 by (simp add: os_Remove_def PF')
  have S1: "set ?n1 = set ?n0 - {key}" by (auto simp add: AList.delete_eq)
  have K: "key \<in> set ?n0" using 2 by simp
  have gone1: "os_Stat ?F fs1 = Some (PathError ENOENT)"
    using 4 by (simp add: os_Stat_def PF' resolve_append delete_conv')
  show ?thesis
  proof (cases "length ?n1 = 0")
    case False
    then have "HDel c hash key fs = (\<lparr>Val = int (length ?n1), Err = None\<rparr>, fs1)"
      using assms(1) Rm R1 by (simp add: HDel_def NewCmd_defs sort_eq_Nil)
    with False R0 R1 S1 K gone1 show ?thesis
      by (intro exI [of _ ?n0] exI [of _ ?n1] exI [of _ fs1]) (simp only: simp_thms if_False)
  next
    case True
    from removeAll_at_dir [OF Pne 4] obtain fs2
      where 5: "removeAll_at ?P fs1 = (None, fs2)" and 6: "resolve ?P fs2 = Inl ENOENT"
      by blast
    have nd: "\<not> endsWithDot ?H" by (rule plain_not_endsWithDot [OF assms(2)])
    have ne: "HashDir c \<noteq> []" by (simp add: HashDir_def)
    have RA: "os_RemoveAll ?H fs1 = (None, fs2)"
      using 5 nd ne by (simp add: os_RemoveAll_def)
    have "HDel c hash key fs = (\<lparr>Val = int (length ?n1), Err = None\<rparr>, fs2)"
      using assms(1) Rm R1 RA True by (simp add: HDel_def NewCmd_defs sort_eq_Nil)
    moreover have "os_Stat ?H fs2 = Some (PathError ENOENT)"
      using 6 by (simp add: os_Stat_def)
    moreover have "os_Stat ?F fs2 = Some (PathError ENOENT)"
      using 6 by (simp add: os_Stat_def PF' resolve_append)
    ultimately show ?thesis using True R0 S1 K
      by (intro exI [of _ ?n0] exI [of _ ?n1] exI [of _ fs2]) (simp only: simp_thms if_True)
  qed
qed

theorem HDel_last_field_removes_hash_witness:
  "IsOpen \<lparr>DBDir = ''db'', IsOpen = True\<rparr> \<and> plain_name ''h'' \<and> plain_name ''f'' \<and>
   os_ReadFile (HashDir \<lparr>DBDir = ''db'', IsOpen = True\<rparr> @ ''h'' @ ''/'' @ ''f'')
     (Dir [(''db'', Dir [(''scalars'', Dir []), (''hashes'', Dir [(''h'', Dir [(''f'', File ''v'')])])])])
     = (''v'', None) \<and>
   HDel \<lparr>DBDir = ''db'', IsOpen = True\<rparr> ''h'' ''f''
     (Dir [(''db'', Dir [(''scalars'', Dir []), (''hashes'', Dir [(''h'', Dir [(''f'', File ''v'')])])])])
   = (\<lparr>Val = 0, Err = None\<rparr>, Dir [(''db'', Dir [(''scalars'', Dir []), (''hashes'', Dir [])])])"
  using HDel_last_field_removes_hash [of "\<lparr>DBDir = ''db'', IsOpen = True\<rparr>" "''h''" "''f''"
      "Dir [(''db'', Dir [(''scalars'', Dir []), (''hashes'', Dir [(''h'', Dir [(''f'', File ''v'')])])])]" "''v''"]
  by (simp add: plain_name_def os_ReadFile_def os_ReadDir_def os_Remove_def os_RemoveAll_def
      endsWithDot_def HDel_def HashDir_def path_of_def NewCmd_defs AList.delete_eq)

subsection \<open>FlushDB\<close>




section \<open>Properties of the dispatcher\<close>

subsection \<open>HDEL with two tokens\<close>

text \<open>
  C3. A line of exactly two tokens whose first token upper-cases to \<open>HDEL\<close> is claimed to
  be dispatched without any out-of-bounds token access. The code passes the test for two
  tokens and then reads \<open>tokens[2]\<close>: every such line panics with an index out of range,
  before the backend is invoked and before anything is printed.
\<close>

theorem HDEL_two_tokens_panics:
  "Fields cmd = [t0, t1] \<Longrightarrow> ToUpper t0 = ''HDEL'' \<Longrightarrow>
   ProcessCmd d cmd opt_x stdin_read w =
     Panicked ''runtime error: index out of range [2] with length 2'' w"
  by (simp add: ProcessCmd_def tok_def case_HDEL_def index_panic_def nat_dec.simps
      flip: numeral_2_eq_2)

theorem HDEL_two_tokens_panics_witness:
  "Fields ''hdel h'' = [''hdel'', ''h''] \<and> ToUpper ''hdel'' = ''HDEL'' \<and>
   ProcessCmd (FS null_backend) ''hdel h'' False ([], None) world0 =
     Panicked ''runtime error: index out of range [2] with length 2'' world0"
  using HDEL_two_tokens_panics [of "''hdel h''" "''hdel''" "''h''" "FS null_backend" False
      "([], None)" world0]
  by (simp add: Fields_def isSpace_def ToUpper_def upper_char_def)

subsection \<open>SET from standard input\<close>

text \<open>
  C4, as amended. In stream-mode \<open>SET\<close> (flag \<open>-x\<close>) with exactly two tokens, a read that
  returns zero bytes with the error \<open>io.EOF\<close> ends the command silently: nothing is
  printed and the backend is not invoked. A read that returns zero bytes with any other
  error makes the dispatcher panic with the text of that error, again before any reply and
  any backend call; nothing in the program recovers from the panic.
\<close>

theorem stream_SET_empty_read:
  "Fields cmd = [t0, t1] \<Longrightarrow> ToUpper t0 = ''SET'' \<Longrightarrow>
   ProcessCmd d cmd True ([], Some e) w =
     (if e = EOF then Returned w else Panicked (Error e) w)"
  by (simp add: ProcessCmd_def tok_def case_SET_def)

theorem stream_SET_empty_read_witness:
  "Fields ''set k'' = [''set'', ''k''] \<and> ToUpper ''set'' = ''SET'' \<and>
   ProcessCmd (FS null_backend) ''set k'' True ([], Some EOF) world0 = Returned world0"
  using stream_SET_empty_read [of "''set k''" "''set''" "''k''" "FS null_backend" EOF world0]
  by (simp add: Fields_def isSpace_def ToUpper_def upper_char_def)

text \<open>
  The claim as stated (the failed read never terminates the process) fails on the line
  \<open>SET k\<close> when the read returns no bytes and an error that is not the end of input.
\<close>

theorem stream_SET_read_error_counterexample:
  "ProcessCmd (FS null_backend) ''SET k'' True ([], Some (ErrorString ''read failed'')) world0
   = Panicked ''read failed'' world0"
  by (simp add: ProcessCmd_def tok_def case_SET_def Fields_def isSpace_def ToUpper_def
      upper_char_def Error_def)

text \<open>
  C10. In stream-mode \<open>SET\<close> with exactly two tokens, whenever the read returns
  \<open>n > 0\<close> bytes, the dispatcher invokes the backend's \<open>Set\<close> once, for the key
  \<open>tokens[1]\<close> and the value made of the first \<open>n - 1\<close> bytes read (the last byte is
  dropped, so a read of one byte stores the empty value); the new backend state is the one
  that \<open>Set\<close> returns, and the reply is \<open>OK\<close> or \<open>(nil)\<close> after its error.
\<close>

theorem stream_SET_drops_last_byte:
  assumes "Fields cmd = [t0, t1]" and "ToUpper t0 = ''SET''" and "length buf > 0"
  shows "\<exists>e w1.
     call_Set d t1 (take (length buf - 1) buf) w = (e, w1) \<and>
     calls w1 = calls w @ [CallSet t1 (take (length buf - 1) buf)] \<and>
     printed w1 = printed w \<and>
     state w1 =
       (case d of
          Redis r \<Rightarrow> snd (r_Set r t1 (take (length buf - 1) buf) (state w))
        | FS f \<Rightarrow> snd (f_SET f t1 (take (length buf - 1) buf) (state w))) \<and>
     ProcessCmd d cmd True (buf, err) w =
       Returned (Println (if e \<noteq> None then nil_reply else ''OK'') w1)"
  using assms
  by (cases d)
    (auto simp add: ProcessCmd_def tok_def case_SET_def call_Set_def invoked_def Let_def
      split: prod.splits)

theorem stream_SET_drops_last_byte_witness:
  "Fields ''set k'' = [''set'', ''k''] \<and> ToUpper ''set'' = ''SET'' \<and> length ''hello!'' > 0 \<and>
   ProcessCmd (FS null_backend) ''set k'' True (''hello!'', None) world0 =
     Returned \<lparr>state = (), printed = [''OK'' @ [CHR 0x0A]], calls = [CallSet ''k'' ''hello'']\<rparr>"
  using stream_SET_drops_last_byte [of "''set k''" "''set''" "''k''" "''hello!''"
      "FS null_backend" world0 None]
  by (simp add: Fields_def isSpace_def ToUpper_def upper_char_def call_Set_def null_backend_def
      invoked_def world0_def Println_def Print_def)

subsection \<open>Token counts that the switch does not accept\<close>

text \<open>
  C8, as amended. For every recognized verb, when the number of tokens fails the test of
  the verb's case, the dispatcher returns after printing one reply and, with one
  exception, without invoking the backend: a syntax error for \<open>FLUSHDB\<close>, a
  wrong-number-of-arguments error for \<open>SET\<close>, \<open>KEYS\<close>, \<open>HKEYS\<close>, \<open>HEXISTS\<close> and
  \<open>EXISTS\<close>, and \<open>(nil)\<close> for \<open>GET\<close>, \<open>HGET\<close>, \<open>DEL\<close> and \<open>HDEL\<close>. \<open>HSET\<close> first
  prints \<open>add -x support\<close>; with at most two tokens it then prints \<open>(nil)\<close>; with more
  it queries the backend for the existence of \<open>tokens[1]\<close> (its only backend call, and no
  write) before it looks at the pairs, and prints the wrong-type error if the name exists
  and the wrong-number-of-arguments error otherwise.
\<close>

theorem count_mismatch_reply:
  assumes "Fields cmd = tokens" and "tokens \<noteq> []" and "ToUpper (hd tokens) = verb"
    and "verb \<in> set verbs" and "\<not> count_accepted verb opt_x (length tokens)"
  shows "if verb = ''HSET'' \<and> length tokens > 2 then
           (\<exists>ex w1. call_Exists_hset d (tokens ! 1) (Println ''add -x support'' w) = (ex, w1) \<and>
              calls w1 = calls w @ [CallExists (tokens ! 1)] \<and>
              ProcessCmd d cmd opt_x stdin_read w =
                Returned (Println (if ex then wrongtype_reply else arity_error_reply ''hset'') w1))
         else
           ProcessCmd d cmd opt_x stdin_read w =
             Returned (Println (mismatch_reply verb)
               (if verb = ''HSET'' then Println ''add -x support'' w else w))"
proof -
  have T: "tok tokens 0 w = (\<lambda>k. k (hd tokens))"
    using assms(2) by (cases tokens) (simp_all add: tok_def fun_eq_iff)
  have P: "ProcessCmd d cmd opt_x stdin_read w =
          (if verb = ''FLUSHDB'' then case_FLUSHDB d tokens w
           else if verb = ''HGET'' then case_HGET d tokens w
           else if verb = ''HSET'' then case_HSET d tokens w
           else if verb = ''HDEL'' then case_HDEL d tokens w
           else if verb = ''HKEYS'' then case_HKEYS d tokens w
           else if verb = ''HEXISTS'' then case_HEXISTS d tokens w
           else if verb = ''GET'' then case_GET d tokens w
           else if verb = ''SET'' then case_SET d tokens opt_x stdin_read w
           else if verb = ''DEL'' then case_DEL d tokens w
           else if verb = ''KEYS'' then case_KEYS d tokens w
           else if verb = ''EXISTS'' then case_EXISTS d tokens w
           else Returned (Println (unknown_command_reply (hd tokens)) w))"
    unfolding ProcessCmd_def Let_def assms(1) T assms(3) using assms(2) by simp
  have V: "verb = ''FLUSHDB'' \<or> verb = ''HGET'' \<or> verb = ''HSET'' \<or> verb = ''HDEL''
    \<or> verb = ''HKEYS'' \<or> verb = ''HEXISTS'' \<or> verb = ''GET'' \<or> verb = ''SET'' \<or> verb = ''DEL''
    \<or> verb = ''KEYS'' \<or> verb = ''EXISTS''"
    using assms(4) unfolding verbs_def by simp
  from V show ?thesis
  proof (elim disjE, goal_cases)
    case 3
    show ?thesis
    proof (cases "length tokens > 2")
      case True
      with 3 assms(5) have n: "(length tokens \<ge> 4 \<and> (length tokens - 2) mod 2 = 0) = False"
        by (simp add: count_accepted_def)
      obtain ex w1 where E: "call_Exists_hset d (tokens ! 1) (Println ''add -x support'' w) = (ex, w1)"
        by (cases "call_Exists_hset d (tokens ! 1) (Println ''add -x support'' w)")
      have C: "calls w1 = calls w @ [CallExists (tokens ! 1)]"
        using E by (cases d) (auto simp add: call_Exists_hset_def invoked_def Println_def Print_def split: prod.splits)
      have "ProcessCmd d cmd opt_x stdin_read w =
                Returned (Println (if ex then wrongtype_reply else arity_error_reply ''hset'') w1)"
        using 3 True E unfolding P case_HSET_def Let_def n by (simp add: tok_def)
      with 3 True E C show ?thesis by simp
    next
      case False
      with 3 show ?thesis unfolding P by (simp add: case_HSET_def mismatch_reply_def Let_def)
    qed
  next
    case 1
    with assms(5) show ?thesis unfolding P by (simp add: case_FLUSHDB_def count_accepted_def mismatch_reply_def)
  next
    case 2
    with assms(5) show ?thesis unfolding P by (simp add: case_HGET_def count_accepted_def mismatch_reply_def)
  next
    case 4
    with assms(5) show ?thesis unfolding P by (simp add: case_HDEL_def count_accepted_def mismatch_reply_def)
  next
    case 5
    with assms(5) show ?thesis unfolding P by (simp add: case_HKEYS_def count_accepted_def mismatch_reply_def)
  next
    case 6
    with assms(5) show ?thesis unfolding P by (simp add: case_HEXISTS_def count_accepted_def mismatch_reply_def)
  next
    case 7
    with assms(5) show ?thesis unfolding P by (simp add: case_GET_def count_accepted_def mismatch_reply_def)
  next
    case 8
    with assms(5) show ?thesis unfolding P by (cases opt_x) (simp_all add: case_SET_def count_accepted_def mismatch_reply_def)
  next
    case 9
    with assms(5) show ?thesis unfolding P by (simp add: case_DEL_def count_accepted_def mismatch_reply_def)
  next
    case 10
    with assms(5) show ?thesis unfolding P by (simp add: case_KEYS_def count_accepted_def mismatch_reply_def)
  next
    case 11
    with assms(5) show ?thesis unfolding P by (simp add: case_EXISTS_def count_accepted_def mismatch_reply_def)
  qed
qed

theorem count_mismatch_reply_witness: "Fields ''get a b'' = [''get'', ''a'', ''b''] \<and> [''get'', ''a'', ''b''] \<noteq> [] \<and> ToUpper (hd [''get'', ''a'', ''b'']) = ''GET'' \<and>
  ''GET'' \<in> set verbs \<and> \<not> count_accepted ''GET'' False (length [''get'', ''a'', ''b'']) \<and>
  ProcessCmd (FS null_backend) ''get a b'' False ([], None) world0 = Returned \<lparr>state = (), printed = [''(nil)'' @ [CHR 0x0A]], calls = []\<rparr>"
  using count_mismatch_reply [of "''get a b''" "[''get'', ''a'', ''b'']" "''GET''" False "FS null_backend" world0 "([], None)"]
  by (simp add: Fields_def isSpace_def ToUpper_def upper_char_def verbs_def count_accepted_def mismatch_reply_def nil_reply_def Println_def Print_def world0_def)


text \<open>
  The claim as stated fails on \<open>HSET h f\<close>, whose pair count is wrong and which queries
  the backend all the same, and on \<open>GET\<close> without a key, whose reply is \<open>(nil)\<close>.
\<close>

theorem count_mismatch_counterexample: "ProcessCmd (FS null_backend) ''HSET h f'' False ([], None) world0 =
     Returned \<lparr>state = (), printed = [''add -x support'' @ [CHR 0x0A],
        ''(error) ERR wrong number of arguments for 'hset' command'' @ [CHR 0x0A]], calls = [CallExists ''h'']\<rparr>
  \<and> ProcessCmd (FS null_backend) ''GET'' False ([], None) world0 =
     Returned \<lparr>state = (), printed = [''(nil)'' @ [CHR 0x0A]], calls = []\<rparr>"
  by (simp add: ProcessCmd_def tok_def case_HSET_def case_GET_def Fields_def isSpace_def ToUpper_def
      upper_char_def call_Exists_hset_def null_backend_def invoked_def world0_def Println_def Print_def
      arity_error_reply_def nil_reply_def Let_def)

end
